theory Spec2Isabelle
  imports Complex_Main
begin

section \<open>The Frogger game state machine of \<open>src/main.ts\<close>\<close>

text \<open>
  The development embeds the pure core of the game: the entity layout, the geometry
  helpers \<open>torusWrap\<close> and \<open>borderBlock\<close>, the motion step \<open>moveBody\<close>, the collision
  resolution \<open>handleCollisions\<close>, the clock step \<open>tick\<close>, the reducer \<open>reduceState\<close> and
  the regenerator \<open>newGameState\<close>.

  Numbers. A TypeScript \<open>number\<close> is a binary64 double. The counters (scores, lives,
  level, goal count, time) are integers here. A coordinate, a size, a velocity and the
  level multiplier are rationals, and their sums and products are exact, where the
  source rounds each of them to a double. The two agree as long as every value is a
  small multiple of \<open>1/4\<close>: that is every coordinate of a game at level 1, where the
  multiplier is \<open>1/2\<close> and the velocities are multiples of \<open>1/2\<close>, and all the concrete
  runs below are played at level 1. They differ from level 2 on, since the multiplier
  \<open>0.5 + 0.1\<close> is not such a number. The general statements about a coordinate or about
  the multiplier are therefore chosen to hold under the rounding of the source too, and
  say where they are read so. Arrays are lists, strings are HOL strings, object spreads
  are record updates.
\<close>

subsection \<open>Constants\<close>

definition CANVAS_WIDTH :: rat where "CANVAS_WIDTH = 600"
definition CANVAS_HEIGHT :: rat where "CANVAS_HEIGHT = 550"
definition START_TIME :: int where "START_TIME = 0"
definition VEHICLE_ROW_COUNT :: nat where "VEHICLE_ROW_COUNT = 4"
definition PLANK_ROW_COUNT :: nat where "PLANK_ROW_COUNT = 4"
definition CROCODILE_COUNT :: nat where "CROCODILE_COUNT = 1"
definition FLY_COUNT :: nat where "FLY_COUNT = 1"
definition DESTINATION_COUNT :: nat where "DESTINATION_COUNT = 5"
definition DESTINATION_HEIGHT :: rat where "DESTINATION_HEIGHT = 50"
definition FROG_START_X :: rat where "FROG_START_X = 300"
definition FROG_START_Y :: rat where "FROG_START_Y = 510"
definition FLY_START_X :: rat where "FLY_START_X = - 100"
definition FLY_START_Y :: rat where "FLY_START_Y = 15"

subsection \<open>Entities, events and the game state\<close>

datatype ViewType =
  VT_frog | VT_vehicle | VT_plank | VT_river | VT_end | VT_block
  | VT_crocodile | VT_fly | VT_crochead

text \<open>The string a view type is in the source; \<open>createRectangle\<close> prefixes the
  identifier with it.\<close>

fun viewType_string :: "ViewType \<Rightarrow> string" where
  "viewType_string VT_frog = ''frog''"
| "viewType_string VT_vehicle = ''vehicle''"
| "viewType_string VT_plank = ''plank''"
| "viewType_string VT_river = ''river''"
| "viewType_string VT_end = ''end''"
| "viewType_string VT_block = ''block''"
| "viewType_string VT_crocodile = ''crocodile''"
| "viewType_string VT_fly = ''fly''"
| "viewType_string VT_crochead = ''crochead''"

text \<open>\<open>Rectangle\<close>, \<open>ObjectId\<close> and \<open>Body\<close> of the source. The field \<open>id\<close> is named
  \<open>ident\<close>, since \<open>id\<close> is the identity function of HOL; the two fields of an
  \<open>ObjectId\<close> value carry the prefix \<open>oid_\<close>, a record field being one constant.\<close>

record Rectangle =
  x :: rat
  y :: rat
  height :: rat
  width :: rat
  velX :: rat

record ObjectId =
  oid_id :: string
  oid_createTime :: int

record Body = Rectangle +
  ident :: string
  createTime :: int
  viewType :: ViewType

datatype Event = Tick int | Move rat rat bool | Restart

record State =
  time :: int
  frog :: Body
  vehicles :: "Body list"
  vehicles2 :: "Body list"
  vehicles3 :: "Body list"
  vehicles4 :: "Body list"
  planks :: "Body list"
  planks2 :: "Body list"
  planks3 :: "Body list"
  croc :: "Body list"
  crocHead :: "Body list"
  destinations :: "Body list"
  blocks :: "Body list"
  fly :: Body
  reachDestID :: string
  reachDestCount :: int
  destScore :: int
  fliesScore :: int
  moveScore :: int
  totalScore :: int
  highScore :: int
  level :: int
  levelPassed :: bool
  levelMultiplier :: rat
  gameOver :: bool
  livesCount :: int

subsection \<open>Entity factories and the starting layout\<close>

definition createRectangle :: "ViewType \<Rightarrow> ObjectId \<Rightarrow> Rectangle \<Rightarrow> Body" where
  "createRectangle vt oid rect =
     \<lparr> x = x rect, y = y rect, height = height rect, width = width rect,
       velX = velX rect,
       ident = viewType_string vt @ oid_id oid,
       createTime = oid_createTime oid,
       viewType = vt \<rparr>"

definition createVehicle :: "ObjectId \<Rightarrow> Rectangle \<Rightarrow> Body" where
  "createVehicle = createRectangle VT_vehicle"

definition createPlank :: "ObjectId \<Rightarrow> Rectangle \<Rightarrow> Body" where
  "createPlank = createRectangle VT_plank"

definition createEnd :: "ObjectId \<Rightarrow> Rectangle \<Rightarrow> Body" where
  "createEnd = createRectangle VT_end"

definition createBlock :: "ObjectId \<Rightarrow> Rectangle \<Rightarrow> Body" where
  "createBlock = createRectangle VT_block"

definition createCroc :: "ObjectId \<Rightarrow> Rectangle \<Rightarrow> Body" where
  "createCroc = createRectangle VT_crocodile"

definition createCrocHead :: "ObjectId \<Rightarrow> Rectangle \<Rightarrow> Body" where
  "createCrocHead = createRectangle VT_crochead"

definition createFrog :: Body where
  "createFrog =
     \<lparr> x = CANVAS_WIDTH / 2, y = CANVAS_HEIGHT - 40, height = 30, width = 30,
       velX = 0, ident = ''frog'', createTime = 0, viewType = VT_frog \<rparr>"

definition createFly :: Body where
  "createFly =
     \<lparr> x = - 100, y = 15, height = 20, width = 20,
       velX = 0, ident = ''fly'', createTime = 0, viewType = VT_fly \<rparr>"

definition y_vehicles :: "rat list" where "y_vehicles = [- 140, - 90, - 240, - 190]"
definition vel_vehicles :: "rat list" where "vel_vehicles = [- (1 / 2), 2, - 1, 3]"
definition y_planks :: "rat list" where "y_planks = [- 340, - 490, - 390, - 440]"
definition width_planks :: "rat list" where "width_planks = [100, 100, 200, 300]"
definition vel_planks :: "rat list" where "vel_planks = [1, - 2, 2, - 1]"
definition x_dests :: "rat list" where "x_dests = [25, 150, 275, 400, 525]"

text \<open>\<open>String(i)\<close> for the one-digit indices \<open>0..9\<close>, the only ones the layout uses.\<close>

definition String_of :: "nat \<Rightarrow> string" where
  "String_of i = [''0123456789'' ! i]"

text \<open>\<open>[...Array(n)].map((_, i) => f i)\<close> is \<open>map f [0..<n]\<close>.\<close>

definition startVehicles :: "Body list" where
  "startVehicles = map (\<lambda>i.
     createVehicle \<lparr> oid_id = String_of i @ ''a'', oid_createTime = START_TIME \<rparr>
       \<lparr> x = 0, y = CANVAS_HEIGHT + y_vehicles ! i, height = 30, width = 50,
         velX = vel_vehicles ! i \<rparr>) [0 ..< VEHICLE_ROW_COUNT]"

definition startVehicles2 :: "Body list" where
  "startVehicles2 = map (\<lambda>i.
     createVehicle \<lparr> oid_id = String_of i @ ''b'', oid_createTime = START_TIME \<rparr>
       \<lparr> x = 150, y = CANVAS_HEIGHT + y_vehicles ! i, height = 30, width = 50,
         velX = vel_vehicles ! i \<rparr>) [0 ..< VEHICLE_ROW_COUNT]"

definition startVehicles3 :: "Body list" where
  "startVehicles3 = map (\<lambda>i.
     createVehicle \<lparr> oid_id = String_of i @ ''c'', oid_createTime = START_TIME \<rparr>
       \<lparr> x = 300, y = CANVAS_HEIGHT + y_vehicles ! i, height = 30, width = 50,
         velX = vel_vehicles ! i \<rparr>) [0 ..< VEHICLE_ROW_COUNT - 1]"

definition startVehicles4 :: "Body list" where
  "startVehicles4 = map (\<lambda>i.
     createVehicle \<lparr> oid_id = String_of i @ ''d'', oid_createTime = START_TIME \<rparr>
       \<lparr> x = 450, y = CANVAS_HEIGHT + y_vehicles ! i, height = 30, width = 50,
         velX = vel_vehicles ! i \<rparr>) [0 ..< VEHICLE_ROW_COUNT - 3]"

definition startPlanks :: "Body list" where
  "startPlanks = map (\<lambda>i.
     createPlank \<lparr> oid_id = String_of i @ ''a'', oid_createTime = START_TIME \<rparr>
       \<lparr> x = 0, y = CANVAS_HEIGHT + y_planks ! i, height = 30,
         width = width_planks ! i, velX = vel_planks ! i \<rparr>) [0 ..< PLANK_ROW_COUNT]"

definition startPlanks2 :: "Body list" where
  "startPlanks2 = map (\<lambda>i.
     createPlank \<lparr> oid_id = String_of i @ ''b'', oid_createTime = START_TIME \<rparr>
       \<lparr> x = 200, y = CANVAS_HEIGHT + y_planks ! i, height = 30,
         width = width_planks ! i, velX = vel_planks ! i \<rparr>) [0 ..< PLANK_ROW_COUNT - 2]"

definition startPlanks3 :: "Body list" where
  "startPlanks3 = map (\<lambda>i.
     createPlank \<lparr> oid_id = String_of i @ ''c'', oid_createTime = START_TIME \<rparr>
       \<lparr> x = 400, y = CANVAS_HEIGHT + y_planks ! i, height = 30,
         width = width_planks ! i, velX = vel_planks ! i \<rparr>) [0 ..< PLANK_ROW_COUNT - 2]"

definition startCroc :: "Body list" where
  "startCroc = map (\<lambda>i.
     createCroc \<lparr> oid_id = String_of i, oid_createTime = START_TIME \<rparr>
       \<lparr> x = 300, y = CANVAS_HEIGHT + y_planks ! 2, height = 30,
         width = width_planks ! 2, velX = vel_planks ! 2 \<rparr>) [0 ..< CROCODILE_COUNT]"

definition startCrocHead :: "Body list" where
  "startCrocHead = map (\<lambda>i.
     createCrocHead \<lparr> oid_id = String_of i, oid_createTime = START_TIME \<rparr>
       \<lparr> x = 480, y = CANVAS_HEIGHT + y_planks ! 2, height = 30, width = 50,
         velX = vel_planks ! 2 \<rparr>) [0 ..< CROCODILE_COUNT]"

definition startDest :: "Body list" where
  "startDest = map (\<lambda>i.
     createEnd \<lparr> oid_id = String_of i, oid_createTime = START_TIME \<rparr>
       \<lparr> x = x_dests ! i, y = 2, height = 48, width = 60, velX = 0 \<rparr>)
     [0 ..< DESTINATION_COUNT]"

definition startBlocks :: "Body list" where
  "startBlocks = map (\<lambda>i.
     createBlock \<lparr> oid_id = String_of i, oid_createTime = START_TIME \<rparr>
       \<lparr> x = x_dests ! i, y = 2, height = 48, width = 60, velX = 0 \<rparr>)
     [0 ..< DESTINATION_COUNT]"

subsection \<open>Geometry and motion\<close>

definition torusWrap :: "rat \<Rightarrow> rat" where
  "torusWrap c =
     (let w = CANVAS_WIDTH;
          wrap = (\<lambda>v. if v \<le> 0 then v + w else if v \<ge> w then v - w else v)
      in wrap c)"

definition borderBlock :: "rat \<Rightarrow> rat" where
  "borderBlock c =
     (let s = CANVAS_HEIGHT;
          block = (\<lambda>v. if v \<le> 0 then v + 50 else if v \<ge> s then v - 50 else v)
      in block c)"

text \<open>The product and the sum in \<open>moveBody\<close>, and the sums in \<open>torusWrap\<close> and
  \<open>borderBlock\<close>, are exact here and rounded to a double in the source.\<close>

definition moveBody :: "Body \<Rightarrow> State \<Rightarrow> Body" where
  "moveBody o' s =
     o'\<lparr> x := torusWrap (x o' + velX o' * levelMultiplier s),
         y := borderBlock (y o') \<rparr>"

subsection \<open>Collision resolution\<close>

definition bodiesCollided :: "Body \<times> Body \<Rightarrow> bool" where
  "bodiesCollided ab =
     (case ab of (a, b) \<Rightarrow>
        x a + width a \<ge> x b \<and> x a \<le> x b + width b
        \<and> y a + height a \<le> y b + height b \<and> y a \<ge> y b)"

definition collidedPlanks :: "State \<Rightarrow> Body list" where
  "collidedPlanks s =
     concat (map (\<lambda>p. filter (\<lambda>p. bodiesCollided (frog s, p)) p)
       [planks s, planks2 s, planks3 s, croc s])"

definition collidedVehicle :: "State \<Rightarrow> Body list" where
  "collidedVehicle s =
     concat (map (\<lambda>v. filter (\<lambda>v. bodiesCollided (frog s, v)) v)
       [vehicles s, vehicles2 s, vehicles3 s, vehicles4 s])"

definition collidedSides :: "State \<Rightarrow> bool" where
  "collidedSides s = (x (frog s) \<ge> CANVAS_WIDTH \<or> x (frog s) \<le> 0)"

definition collidedRiver :: "State \<Rightarrow> bool" where
  "collidedRiver s =
     (y (frog s) \<ge> 50 \<and> y (frog s) \<le> 250 \<and> length (collidedPlanks s) \<le> 0)"

definition collidedEnd :: "State \<Rightarrow> Body list" where
  "collidedEnd s = filter (\<lambda>d. bodiesCollided (frog s, d)) (destinations s)"

definition collidedCrocHead :: "State \<Rightarrow> Body list" where
  "collidedCrocHead s = filter (\<lambda>c. bodiesCollided (frog s, c)) (crocHead s)"

definition collidedFinalZone :: "State \<Rightarrow> bool" where
  "collidedFinalZone s = (y (frog s) \<le> 50 \<and> length (collidedEnd s) \<le> 0)"

definition collidedBlocks :: "State \<Rightarrow> Body list" where
  "collidedBlocks s = filter (\<lambda>b. bodiesCollided (frog s, b)) (blocks s)"

definition collidedFly :: "State \<Rightarrow> bool" where
  "collidedFly s = bodiesCollided (fly s, frog s)"

definition collidedDeath :: "State \<Rightarrow> bool" where
  "collidedDeath s =
     (length (collidedVehicle s) > 0 \<or> collidedSides s \<or> collidedRiver s
      \<or> length (collidedCrocHead s) > 0)"

text \<open>JavaScript's conversion of an array to a boolean, as \<open>!collidedBlocks\<close> applies
  it: every object is truthy, an empty array too.\<close>

definition truthy_array :: "'a list \<Rightarrow> bool" where
  "truthy_array xs = True"

text \<open>Every right-hand side of the returned object reads the argument \<open>s\<close>, never a
  field computed in the same call.\<close>

definition handleCollisions :: "State \<Rightarrow> State" where
  "handleCollisions s =
     s\<lparr> frog := (frog s)\<lparr>
           x := (if length (collidedEnd s) > 0 \<or> collidedDeath s then FROG_START_X
                 else x (frog s)),
           y := (if length (collidedEnd s) > 0 \<or> collidedDeath s then FROG_START_Y
                 else if collidedFinalZone s \<or> length (collidedBlocks s) > 0
                   then y (frog s) + 50
                 else y (frog s)),
           velX := (if length (collidedPlanks s) > 0 then velX (hd (collidedPlanks s))
                    else 0) \<rparr>,
        fly := (fly s)\<lparr>
           x := (if collidedFly s then FLY_START_X else x (fly s)),
           y := (if collidedFly s then FLY_START_Y else y (fly s)) \<rparr>,
        reachDestID := (if length (collidedEnd s) > 0 then ident (hd (collidedEnd s))
                        else ''''),
        destinations := map (\<lambda>b. if ident b = reachDestID s then b\<lparr> y := y b - 100 \<rparr>
                                  else b) (destinations s),
        reachDestCount := (if length (collidedEnd s) > 0 then reachDestCount s + 1
                           else reachDestCount s),
        levelPassed := (if reachDestCount s = int DESTINATION_COUNT then True else False),
        destScore := (if length (collidedEnd s) > 0 then destScore s + 100
                      else destScore s),
        fliesScore := (if collidedFly s \<and> \<not> truthy_array (collidedBlocks s)
                       then fliesScore s + 50 else fliesScore s),
        totalScore := destScore s + fliesScore s + moveScore s,
        highScore := (if totalScore s \<ge> highScore s then totalScore s else highScore s),
        livesCount := (if collidedDeath s then livesCount s - 1 else livesCount s),
        gameOver := (if livesCount s = 0 then True else False) \<rparr>"

subsection \<open>The initial state, the clock step and the reducer\<close>

definition initialState :: State where
  "initialState =
     \<lparr> time = 0, frog = createFrog,
       vehicles = startVehicles, vehicles2 = startVehicles2,
       vehicles3 = startVehicles3, vehicles4 = startVehicles4,
       planks = startPlanks, planks2 = startPlanks2, planks3 = startPlanks3,
       croc = startCroc, crocHead = startCrocHead,
       destinations = startDest, blocks = startBlocks, fly = createFly,
       reachDestID = '''', reachDestCount = 0,
       destScore = 0, fliesScore = 0, moveScore = 0, totalScore = 0, highScore = 0,
       level = 1, levelPassed = False, levelMultiplier = 1 / 2,
       gameOver = False, livesCount = 3 \<rparr>"

text \<open>\<open>tick\<close> draws \<open>Math.floor(Math.random() * DESTINATION_COUNT)\<close>, an index in
  \<open>0..4\<close>. The draw is the argument \<open>rnd\<close>, reduced modulo \<open>DESTINATION_COUNT\<close> so
  that every natural number stands for such an index. The test \<open>s.time % 500 == 0\<close>
  asks whether 500 divides the time, which \<open>mod\<close> on the integers decides as well as
  JavaScript's remainder.\<close>

definition tick :: "nat \<Rightarrow> State \<Rightarrow> int \<Rightarrow> State" where
  "tick rnd s elapsed =
     handleCollisions (s\<lparr>
       frog := moveBody (frog s) s,
       vehicles := map (\<lambda>b. moveBody b s) (vehicles s),
       vehicles2 := map (\<lambda>b. moveBody b s) (vehicles2 s),
       vehicles3 := map (\<lambda>b. moveBody b s) (vehicles3 s),
       vehicles4 := map (\<lambda>b. moveBody b s) (vehicles4 s),
       planks := map (\<lambda>b. moveBody b s) (planks s),
       planks2 := map (\<lambda>b. moveBody b s) (planks2 s),
       planks3 := map (\<lambda>b. moveBody b s) (planks3 s),
       croc := map (\<lambda>b. moveBody b s) (croc s),
       crocHead := map (\<lambda>b. moveBody b s) (crocHead s),
       fly := (fly s)\<lparr>
         x := (if time s mod 500 = 0 \<and> time s \<noteq> 0
               then x_dests ! (rnd mod DESTINATION_COUNT) + 20 else x (fly s)) \<rparr>,
       time := elapsed \<rparr>)"

fun reduceState :: "nat \<Rightarrow> State \<Rightarrow> Event \<Rightarrow> State" where
  "reduceState rnd s (Move dx dy isScore) =
     s\<lparr> frog := (frog s)\<lparr> x := x (frog s) + dx, y := y (frog s) + dy \<rparr>,
        moveScore := (if isScore \<and> y (frog s) > 100 then moveScore s + 10
                      else moveScore s) \<rparr>"
| "reduceState rnd s Restart = s\<lparr> gameOver := True \<rparr>"
| "reduceState rnd s (Tick elapsed) = tick rnd s elapsed"

text \<open>The reducer folded over a stream of events, as \<open>scan(reduceState, s)\<close> does;
  each event comes with the draw its tick would use.\<close>

fun run :: "State \<Rightarrow> (nat \<times> Event) list \<Rightarrow> State" where
  "run s [] = s"
| "run s ((rnd, e) # es) = run (reduceState rnd s e) es"

subsection \<open>The regenerator\<close>

text \<open>In the level-passed branch \<open>+ 1 / 10\<close> stands for the source's \<open>+ 0.1\<close>, a
  double constant and a rounded sum.\<close>

definition newGameState :: "State \<Rightarrow> State" where
  "newGameState s =
     (if gameOver s then
        s\<lparr> time := 0, frog := createFrog,
           vehicles := startVehicles, vehicles2 := startVehicles2,
           vehicles3 := startVehicles3, vehicles4 := startVehicles4,
           planks := startPlanks, planks2 := startPlanks2, planks3 := startPlanks3,
           croc := startCroc, crocHead := startCrocHead,
           destinations := startDest, blocks := startBlocks,
           reachDestCount := 0, fly := createFly, reachDestID := '''',
           destScore := 0, fliesScore := 0, moveScore := 0, totalScore := 0,
           level := 1, levelPassed := False, levelMultiplier := 1 / 2,
           gameOver := False, livesCount := 3 \<rparr>
      else if levelPassed s then
        s\<lparr> time := 0, frog := createFrog,
           vehicles := startVehicles, vehicles2 := startVehicles2,
           vehicles3 := startVehicles3, vehicles4 := startVehicles4,
           planks := startPlanks, planks2 := startPlanks2, planks3 := startPlanks3,
           croc := startCroc, crocHead := startCrocHead,
           destinations := startDest, blocks := startBlocks,
           reachDestCount := 0, fly := createFly, reachDestID := '''',
           destScore := destScore s, fliesScore := fliesScore s,
           moveScore := moveScore s, totalScore := totalScore s,
           level := level s + 1, levelPassed := False,
           levelMultiplier := levelMultiplier s + 1 / 10,
           gameOver := False, livesCount := livesCount s \<rparr>
      else s)"

subsection \<open>Event streams used as concrete inputs\<close>

text \<open>The four arrow keys, as \<open>moveUp$\<close>, \<open>moveDown$\<close>, \<open>moveLeft$\<close> and \<open>moveRight$\<close>
  map them to events.\<close>

definition moveUp :: Event where "moveUp = Move 0 (- 50) True"
definition moveDown :: Event where "moveDown = Move 0 50 False"
definition moveLeft :: Event where "moveLeft = Move (- 50) 0 False"
definition moveRight :: Event where "moveRight = Move 50 0 False"

definition presses :: "nat \<Rightarrow> Event \<Rightarrow> (nat \<times> Event) list" where
  "presses k e = replicate k (0, e)"

text \<open>Six steps to the left put the player on the left edge; the tick that follows
  finds it there and takes a life.\<close>

definition to_left_edge :: "(nat \<times> Event) list" where
  "to_left_edge = presses 6 moveLeft @ [(0, Tick 1)]"

definition three_deaths :: "(nat \<times> Event) list" where
  "three_deaths = to_left_edge @ to_left_edge @ to_left_edge"

definition four_deaths :: "(nat \<times> Event) list" where
  "four_deaths = to_left_edge @ to_left_edge @ to_left_edge @ to_left_edge"

text \<open>A scoring step and two ticks (the first one a road death) bring the high score
  to 10; two more deaths and a tick end the game.\<close>

definition game_over_run :: "(nat \<times> Event) list" where
  "game_over_run =
     [(0, moveUp), (0, Tick 1), (0, Tick 2)] @ to_left_edge @ to_left_edge @ [(0, Tick 3)]"

text \<open>Ten steps up and five to the left put the player at \<open>(50, 10)\<close>, inside the
  leftmost goal zone.\<close>

definition to_goal0 :: "(nat \<times> Event) list" where
  "to_goal0 = presses 10 moveUp @ presses 5 moveLeft"

text \<open>The same walk after the collectible has been spawned at the leftmost goal: the
  tick seen at time 500 moves it there.\<close>

definition fly_at_goal0 :: "(nat \<times> Event) list" where
  "fly_at_goal0 = [(0, Tick 500), (0, Tick 501)] @ to_goal0"

text \<open>The five goal zones, each reached by a walk and the tick that ends it.\<close>

definition five_goals :: "(nat \<times> Event) list" where
  "five_goals =
     presses 10 moveUp @ [(0, Tick 1)]
     @ presses 10 moveUp @ presses 3 moveLeft @ [(0, Tick 2)]
     @ presses 10 moveUp @ presses 5 moveLeft @ [(0, Tick 3)]
     @ presses 10 moveUp @ presses 2 moveRight @ [(0, Tick 4)]
     @ presses 10 moveUp @ presses 5 moveRight @ [(0, Tick 5)]"

text \<open>Four goal zones reached with all lives, three deaths, then the fifth goal zone
  and one more tick.\<close>

definition last_life_goals :: "(nat \<times> Event) list" where
  "last_life_goals =
     presses 10 moveUp @ [(0, Tick 1)]
     @ presses 10 moveUp @ presses 3 moveLeft @ [(0, Tick 2)]
     @ presses 10 moveUp @ presses 5 moveLeft @ [(0, Tick 3)]
     @ presses 10 moveUp @ presses 2 moveRight @ [(0, Tick 4)]
     @ three_deaths
     @ presses 10 moveUp @ presses 5 moveRight @ [(0, Tick 5), (0, Tick 6)]"

text \<open>The fields of a state that the longer runs are read at.\<close>

definition outcome ::
  "State \<Rightarrow> int \<times> bool \<times> bool \<times> int \<times> int \<times> int \<times> rat \<times> rat list" where
  "outcome s =
     (reachDestCount s, levelPassed s, gameOver s, livesCount s, level s, destScore s,
      levelMultiplier s, map y (destinations s))"

section \<open>Properties\<close>

subsection \<open>What collision resolution and a tick do to each field\<close>

lemmas Constants_defs =
  CANVAS_WIDTH_def CANVAS_HEIGHT_def START_TIME_def VEHICLE_ROW_COUNT_def
  PLANK_ROW_COUNT_def CROCODILE_COUNT_def FLY_COUNT_def DESTINATION_COUNT_def
  DESTINATION_HEIGHT_def FROG_START_X_def FROG_START_Y_def FLY_START_X_def
  FLY_START_Y_def

lemma handleCollisions_totalScore:
  "totalScore (handleCollisions s) = destScore s + fliesScore s + moveScore s"
  by (simp add: handleCollisions_def)

lemma handleCollisions_destScore:
  "destScore (handleCollisions s) =
     (if 0 < length (collidedEnd s) then destScore s + 100 else destScore s)"
  by (simp add: handleCollisions_def)

lemma handleCollisions_highScore:
  "highScore (handleCollisions s) = max (highScore s) (totalScore s)"
  by (simp add: handleCollisions_def max_def)

lemma handleCollisions_gameOver: "gameOver (handleCollisions s) = (livesCount s = 0)"
  by (simp add: handleCollisions_def)

lemma handleCollisions_livesCount:
  "livesCount (handleCollisions s) =
     (if collidedDeath s then livesCount s - 1 else livesCount s)"
  by (simp add: handleCollisions_def)

lemma handleCollisions_levelPassed:
  "levelPassed (handleCollisions s) = (reachDestCount s = int DESTINATION_COUNT)"
  by (simp add: handleCollisions_def)

lemma handleCollisions_destinations:
  "destinations (handleCollisions s) =
     map (\<lambda>b. if ident b = reachDestID s then b\<lparr> y := y b - 100 \<rparr> else b) (destinations s)"
  by (simp add: handleCollisions_def)

lemma handleCollisions_reachDestID:
  "reachDestID (handleCollisions s) =
     (if 0 < length (collidedEnd s) then ident (hd (collidedEnd s)) else [])"
  by (simp add: handleCollisions_def)

lemma handleCollisions_reachDestCount:
  "reachDestCount (handleCollisions s) =
     (if 0 < length (collidedEnd s) then reachDestCount s + 1 else reachDestCount s)"
  by (simp add: handleCollisions_def)

text \<open>The motion step of a tick touches no score, flag or counter, so a tick reads
  them from the state it was given.\<close>

lemma tick_totalScore:
  "totalScore (tick rnd s el) = destScore s + fliesScore s + moveScore s"
  by (simp add: tick_def handleCollisions_totalScore)

lemma tick_highScore: "highScore (tick rnd s el) = max (highScore s) (totalScore s)"
  by (simp add: tick_def handleCollisions_highScore)

lemma tick_gameOver: "gameOver (tick rnd s el) = (livesCount s = 0)"
  by (simp add: tick_def handleCollisions_gameOver)

lemma tick_levelPassed:
  "levelPassed (tick rnd s el) = (reachDestCount s = int DESTINATION_COUNT)"
  by (simp add: tick_def handleCollisions_levelPassed)

lemma tick_destinations:
  "destinations (tick rnd s el) =
     map (\<lambda>b. if ident b = reachDestID s then b\<lparr> y := y b - 100 \<rparr> else b) (destinations s)"
  by (simp add: tick_def handleCollisions_destinations)

lemma tick_livesCount:
  "livesCount (tick rnd s el) = livesCount s
   \<or> livesCount (tick rnd s el) = livesCount s - 1"
  unfolding tick_def handleCollisions_livesCount by simp

subsection \<open>Scores\<close>

text \<open>
  C1 (as stated): after every transition of the reducer the resulting state satisfies
  \<open>totalScore = destScore + fliesScore + moveScore\<close>. The first step up from the
  initial state refutes it: the movement score becomes 10 and the total stays 0.
\<close>

theorem totalScore_sum_counterexample:
  "totalScore (reduceState 0 initialState moveUp)
   \<noteq> destScore (reduceState 0 initialState moveUp)
     + fliesScore (reduceState 0 initialState moveUp)
     + moveScore (reduceState 0 initialState moveUp)"
  by code_simp

text \<open>
  C1 (amended): a tick sets \<open>totalScore\<close> to the sum of the three accumulators of the
  state before the tick, so after a tick that changes none of the three the total is
  the sum of the accumulators of the resulting state. A move and a restart leave
  \<open>totalScore\<close> as it is; a scoring move from a vertical coordinate above 100 raises
  \<open>moveScore\<close> by 10.
\<close>

theorem totalScore_lags_accumulators:
  "totalScore (reduceState rnd s (Tick el)) = destScore s + fliesScore s + moveScore s
   \<and> (destScore (reduceState rnd s (Tick el)) = destScore s
      \<and> fliesScore (reduceState rnd s (Tick el)) = fliesScore s
      \<and> moveScore (reduceState rnd s (Tick el)) = moveScore s
      \<longrightarrow> totalScore (reduceState rnd s (Tick el))
          = destScore (reduceState rnd s (Tick el))
            + fliesScore (reduceState rnd s (Tick el))
            + moveScore (reduceState rnd s (Tick el)))
   \<and> totalScore (reduceState rnd s (Move dx dy isScore)) = totalScore s
   \<and> moveScore (reduceState rnd s (Move dx dy isScore))
     = (if isScore \<and> y (frog s) > 100 then moveScore s + 10 else moveScore s)
   \<and> totalScore (reduceState rnd s Restart) = totalScore s"
  by (simp add: tick_totalScore)

text \<open>After the first step up the movement score is 10 and the total 0; the tick that
  follows changes no accumulator and brings the total to 10.\<close>

theorem totalScore_lags_accumulators_witness:
  "destScore (reduceState 0 (reduceState 0 initialState moveUp) (Tick 1))
     = destScore (reduceState 0 initialState moveUp)
   \<and> fliesScore (reduceState 0 (reduceState 0 initialState moveUp) (Tick 1))
     = fliesScore (reduceState 0 initialState moveUp)
   \<and> moveScore (reduceState 0 (reduceState 0 initialState moveUp) (Tick 1))
     = moveScore (reduceState 0 initialState moveUp)
   \<and> moveScore (reduceState 0 initialState moveUp) = 10
   \<and> totalScore (reduceState 0 initialState moveUp) = 0
   \<and> totalScore (reduceState 0 (reduceState 0 initialState moveUp) (Tick 1)) = 10
   \<and> totalScore (reduceState 0 (reduceState 0 initialState moveUp) (Tick 1))
     = destScore (reduceState 0 (reduceState 0 initialState moveUp) (Tick 1))
       + fliesScore (reduceState 0 (reduceState 0 initialState moveUp) (Tick 1))
       + moveScore (reduceState 0 (reduceState 0 initialState moveUp) (Tick 1))"
proof -
  have same: "destScore (reduceState 0 (reduceState 0 initialState moveUp) (Tick 1))
       = destScore (reduceState 0 initialState moveUp)
     \<and> fliesScore (reduceState 0 (reduceState 0 initialState moveUp) (Tick 1))
       = fliesScore (reduceState 0 initialState moveUp)
     \<and> moveScore (reduceState 0 (reduceState 0 initialState moveUp) (Tick 1))
       = moveScore (reduceState 0 initialState moveUp)"
    by code_simp
  have before: "destScore (reduceState 0 initialState moveUp) = 0
     \<and> fliesScore (reduceState 0 initialState moveUp) = 0
     \<and> moveScore (reduceState 0 initialState moveUp) = 10
     \<and> totalScore (reduceState 0 initialState moveUp) = 0"
    by code_simp
  from totalScore_lags_accumulators [of 0 "reduceState 0 initialState moveUp" 1]
  have total: "totalScore (reduceState 0 (reduceState 0 initialState moveUp) (Tick 1))
       = destScore (reduceState 0 initialState moveUp)
         + fliesScore (reduceState 0 initialState moveUp)
         + moveScore (reduceState 0 initialState moveUp)"
    and inv: "totalScore (reduceState 0 (reduceState 0 initialState moveUp) (Tick 1))
       = destScore (reduceState 0 (reduceState 0 initialState moveUp) (Tick 1))
         + fliesScore (reduceState 0 (reduceState 0 initialState moveUp) (Tick 1))
         + moveScore (reduceState 0 (reduceState 0 initialState moveUp) (Tick 1))"
    using same by blast+
  from total before
  have ten: "totalScore (reduceState 0 (reduceState 0 initialState moveUp) (Tick 1)) = 10"
    by linarith
  from same before ten inv show ?thesis by blast
qed

text \<open>
  C4 (as stated): after every transition \<open>highScore \<ge> totalScore\<close>, the high score being
  recomputed as the maximum of itself and the newly computed total. A scoring step and
  one tick from the initial state give a total of 10 under a high score of 0.
\<close>

theorem highScore_below_total_counterexample:
  "highScore (run initialState [(0, moveUp), (0, Tick 1)])
   < totalScore (run initialState [(0, moveUp), (0, Tick 1)])"
  by code_simp

text \<open>
  C4 (amended): a tick sets \<open>highScore\<close> to the maximum of its previous value and the
  total score of the state before the tick (not the total the same tick computes), so
  after a tick the high score is at least the previous total; and no event lowers the
  high score.
\<close>

theorem highScore_max_of_previous_total:
  "highScore (reduceState rnd s (Tick el)) = max (highScore s) (totalScore s)
   \<and> totalScore s \<le> highScore (reduceState rnd s (Tick el))
   \<and> highScore s \<le> highScore (reduceState rnd s e)"
  by (cases e) (simp_all add: tick_highScore)

text \<open>
  C3: whenever the player overlaps the collectible, collision resolution adds 50 to
  \<open>fliesScore\<close>. The code does not: its condition is \<open>collidedFly && !collidedBlocks\<close>,
  and the negation of an array is false, so the score is never raised. The theorem
  runs the code on a state reached from the initial one, where the collectible sits in
  the leftmost goal zone and the player stands on it: the overlap is detected, the
  collectible is sent back to its spawn position, and \<open>fliesScore\<close> stays 0.
\<close>

theorem fly_overlap_scores_nothing:
  "collidedFly (run initialState fly_at_goal0)
   \<and> x (fly (run initialState fly_at_goal0)) = 45
   \<and> fliesScore (run initialState fly_at_goal0) = 0
   \<and> fliesScore (handleCollisions (run initialState fly_at_goal0)) = 0
   \<and> fliesScore (reduceState 0 (run initialState fly_at_goal0) (Tick 502)) = 0
   \<and> x (fly (reduceState 0 (run initialState fly_at_goal0) (Tick 502))) = FLY_START_X"
  by code_simp

subsection \<open>Lives and the game-over flag\<close>

text \<open>
  C2 (as stated): in every state reached from the initial one \<open>livesCount\<close> is not
  negative, and \<open>gameOver\<close> holds exactly when \<open>livesCount\<close> is zero. A restart from the
  initial state raises the flag with three lives left, and four deaths in a row leave
  \<open>livesCount\<close> at \<open>-1\<close>.
\<close>

theorem lives_gameOver_counterexample:
  "gameOver (reduceState 0 initialState Restart)
   \<and> livesCount (reduceState 0 initialState Restart) = 3
   \<and> livesCount (run initialState four_deaths) < 0"
  by code_simp

text \<open>
  C2 (amended): after a tick \<open>gameOver\<close> holds exactly when \<open>livesCount\<close> was zero before
  the tick. A tick on a state with lives left (\<open>livesCount > 0\<close>) leaves \<open>livesCount\<close> as
  it was or one lower, hence not negative, collision resolution lowering it by one
  exactly on a death condition. A move changes neither field; a restart raises the flag
  and keeps the lives. Nothing is said of the lives after a tick on a state without
  lives left.
\<close>

theorem gameOver_follows_previous_lives:
  "gameOver (reduceState rnd s (Tick el)) = (livesCount s = 0)
   \<and> (0 < livesCount s \<longrightarrow>
        (livesCount (reduceState rnd s (Tick el)) = livesCount s
         \<or> livesCount (reduceState rnd s (Tick el)) = livesCount s - 1)
        \<and> 0 \<le> livesCount (reduceState rnd s (Tick el))
        \<and> livesCount (handleCollisions s)
          = (if collidedDeath s then livesCount s - 1 else livesCount s))
   \<and> gameOver (reduceState rnd s (Move dx dy isScore)) = gameOver s
   \<and> livesCount (reduceState rnd s (Move dx dy isScore)) = livesCount s
   \<and> gameOver (reduceState rnd s Restart)
   \<and> livesCount (reduceState rnd s Restart) = livesCount s"
  using tick_livesCount [of rnd s el]
  by (auto simp add: tick_gameOver handleCollisions_livesCount)

text \<open>The player walked onto the left edge with three lives: the tick takes one.\<close>

theorem gameOver_follows_previous_lives_witness:
  "0 < livesCount (run initialState (presses 6 moveLeft))
   \<and> livesCount (run initialState (presses 6 moveLeft)) = 3
   \<and> collidedDeath (run initialState (presses 6 moveLeft))
   \<and> livesCount (handleCollisions (run initialState (presses 6 moveLeft))) = 2
   \<and> 0 \<le> livesCount (reduceState 0 (run initialState (presses 6 moveLeft)) (Tick 1))
   \<and> \<not> gameOver (reduceState 0 (run initialState (presses 6 moveLeft)) (Tick 1))"
proof -
  have lives: "livesCount (run initialState (presses 6 moveLeft)) = 3"
    by code_simp
  have death: "collidedDeath (run initialState (presses 6 moveLeft))"
    by code_simp
  from lives have pos: "0 < livesCount (run initialState (presses 6 moveLeft))"
    by simp
  from gameOver_follows_previous_lives [of 0 "run initialState (presses 6 moveLeft)" 1] pos
  have flag: "gameOver (reduceState 0 (run initialState (presses 6 moveLeft)) (Tick 1))
       = (livesCount (run initialState (presses 6 moveLeft)) = 0)"
    and nonneg: "0 \<le> livesCount (reduceState 0 (run initialState (presses 6 moveLeft)) (Tick 1))"
    and dec: "livesCount (handleCollisions (run initialState (presses 6 moveLeft)))
       = (if collidedDeath (run initialState (presses 6 moveLeft))
          then livesCount (run initialState (presses 6 moveLeft)) - 1
          else livesCount (run initialState (presses 6 moveLeft)))"
    by blast+
  from dec death lives
  have two: "livesCount (handleCollisions (run initialState (presses 6 moveLeft))) = 2"
    by simp
  from flag lives
  have off: "\<not> gameOver (reduceState 0 (run initialState (presses 6 moveLeft)) (Tick 1))"
    by simp
  from pos lives death two nonneg off show ?thesis by blast
qed

text \<open>
  C10: a tick recomputes \<open>gameOver\<close> from the lives of the state before it and from
  nothing else; with lives left the flag is false after the tick, whatever it was
  before.
\<close>

theorem tick_overwrites_gameOver:
  "gameOver (reduceState rnd s (Tick el)) = (livesCount s = 0)"
  by (simp add: tick_gameOver)

text \<open>A restart from the initial state raises the flag; the next tick clears it.\<close>

theorem tick_overwrites_gameOver_witness:
  "gameOver (reduceState 0 initialState Restart)
   \<and> livesCount (reduceState 0 initialState Restart) = 3
   \<and> \<not> gameOver (reduceState 0 (reduceState 0 initialState Restart) (Tick 1))"
proof -
  have lives: "livesCount (reduceState 0 initialState Restart) = 3"
    by (simp add: initialState_def)
  show ?thesis
    using tick_overwrites_gameOver [of 0 "reduceState 0 initialState Restart" 1] lives
    by simp
qed

text \<open>
  C9: a restart sets \<open>gameOver\<close> and leaves every other field as it was.
\<close>

theorem restart_only_sets_gameOver:
  "reduceState rnd s Restart = s\<lparr> gameOver := True \<rparr>
   \<and> gameOver (reduceState rnd s Restart)
   \<and> time (reduceState rnd s Restart) = time s
   \<and> frog (reduceState rnd s Restart) = frog s
   \<and> vehicles (reduceState rnd s Restart) = vehicles s
   \<and> vehicles2 (reduceState rnd s Restart) = vehicles2 s
   \<and> vehicles3 (reduceState rnd s Restart) = vehicles3 s
   \<and> vehicles4 (reduceState rnd s Restart) = vehicles4 s
   \<and> planks (reduceState rnd s Restart) = planks s
   \<and> planks2 (reduceState rnd s Restart) = planks2 s
   \<and> planks3 (reduceState rnd s Restart) = planks3 s
   \<and> croc (reduceState rnd s Restart) = croc s
   \<and> crocHead (reduceState rnd s Restart) = crocHead s
   \<and> destinations (reduceState rnd s Restart) = destinations s
   \<and> blocks (reduceState rnd s Restart) = blocks s
   \<and> fly (reduceState rnd s Restart) = fly s
   \<and> reachDestID (reduceState rnd s Restart) = reachDestID s
   \<and> reachDestCount (reduceState rnd s Restart) = reachDestCount s
   \<and> destScore (reduceState rnd s Restart) = destScore s
   \<and> fliesScore (reduceState rnd s Restart) = fliesScore s
   \<and> moveScore (reduceState rnd s Restart) = moveScore s
   \<and> totalScore (reduceState rnd s Restart) = totalScore s
   \<and> highScore (reduceState rnd s Restart) = highScore s
   \<and> level (reduceState rnd s Restart) = level s
   \<and> levelPassed (reduceState rnd s Restart) = levelPassed s
   \<and> levelMultiplier (reduceState rnd s Restart) = levelMultiplier s
   \<and> livesCount (reduceState rnd s Restart) = livesCount s"
  by simp

subsection \<open>Wrap-around\<close>

text \<open>
  C5 (as stated): for every \<open>c\<close> in \<open>[-width, 2 * width]\<close> the value \<open>torusWrap c\<close> lies
  in \<open>[0, width)\<close>, and \<open>torusWrap\<close> is idempotent on that range. At \<open>c = 0\<close> the
  function returns the width, and wrapping that again returns 0.
\<close>

theorem torusWrap_zero_counterexample:
  "- CANVAS_WIDTH \<le> 0 \<and> (0::rat) \<le> 2 * CANVAS_WIDTH
   \<and> torusWrap 0 = CANVAS_WIDTH
   \<and> \<not> torusWrap 0 < CANVAS_WIDTH
   \<and> torusWrap (torusWrap 0) \<noteq> torusWrap 0"
  by (simp add: torusWrap_def CANVAS_WIDTH_def)

text \<open>
  C5 (amended): for every \<open>c\<close> in \<open>[-width, 2 * width]\<close> the value \<open>torusWrap c\<close> lies in
  the closed interval \<open>[0, width]\<close>. It lies in \<open>[0, width)\<close> for every \<open>c\<close> in
  \<open>[-width, 2 * width)\<close> that is positive or at most \<open>-2\<^sup>-\<^sup>4\<^sup>3\<close>. On the open interval
  \<open>(0, width)\<close> the function is the identity, hence idempotent there. At the ends:
  \<open>torusWrap 0 = width\<close>, \<open>torusWrap width = 0\<close>, \<open>torusWrap (2 * width) = width\<close> and
  \<open>torusWrap (-width) = 0\<close>.

  The excluded arguments are 0, where the result is the width, and the negative numbers
  nearer to 0 than \<open>2\<^sup>-\<^sup>4\<^sup>3\<close>, the spacing of the doubles just below 600: there the
  double sum \<open>c + width\<close> of the source can round to the width itself. Outside them
  every bound stated here holds for the rounded sum as for the exact one, rounding
  being monotone and 0, \<open>600 - 2\<^sup>-\<^sup>4\<^sup>3\<close> and 600 being doubles; the difference
  \<open>c - width\<close> is exact for \<open>c\<close> in \<open>[width, 2 * width]\<close>.
\<close>

theorem torusWrap_range:
  "(- CANVAS_WIDTH \<le> c \<and> c \<le> 2 * CANVAS_WIDTH
      \<longrightarrow> 0 \<le> torusWrap c \<and> torusWrap c \<le> CANVAS_WIDTH)
   \<and> (- CANVAS_WIDTH \<le> c \<and> c < 2 * CANVAS_WIDTH \<and> (c \<le> - (1 / 2 ^ 43) \<or> 0 < c)
      \<longrightarrow> 0 \<le> torusWrap c \<and> torusWrap c < CANVAS_WIDTH)
   \<and> (0 < c \<and> c < CANVAS_WIDTH
      \<longrightarrow> torusWrap c = c \<and> torusWrap (torusWrap c) = torusWrap c)
   \<and> torusWrap 0 = CANVAS_WIDTH
   \<and> torusWrap CANVAS_WIDTH = 0
   \<and> torusWrap (2 * CANVAS_WIDTH) = CANVAS_WIDTH
   \<and> torusWrap (- CANVAS_WIDTH) = 0"
proof -
  have small: "(0::rat) < 1 / 2 ^ 43" by simp
  have closed: "- CANVAS_WIDTH \<le> c \<and> c \<le> 2 * CANVAS_WIDTH
      \<longrightarrow> 0 \<le> torusWrap c \<and> torusWrap c \<le> CANVAS_WIDTH"
    by (auto simp add: torusWrap_def CANVAS_WIDTH_def)
  have half_open: "- CANVAS_WIDTH \<le> c \<and> c < 2 * CANVAS_WIDTH
        \<and> (c \<le> - (1 / 2 ^ 43) \<or> 0 < c)
      \<longrightarrow> 0 \<le> torusWrap c \<and> torusWrap c < CANVAS_WIDTH"
  proof (intro impI)
    assume range: "- CANVAS_WIDTH \<le> c \<and> c < 2 * CANVAS_WIDTH
        \<and> (c \<le> - (1 / 2 ^ 43) \<or> 0 < c)"
    from small have "c \<le> - (1 / 2 ^ 43) \<Longrightarrow> c < 0" by linarith
    with range have away: "c < 0 \<or> 0 < c" by blast
    from range have bounds: "- CANVAS_WIDTH \<le> c" "c < 2 * CANVAS_WIDTH" by blast+
    from away bounds show "0 \<le> torusWrap c \<and> torusWrap c < CANVAS_WIDTH"
      by (auto simp add: torusWrap_def CANVAS_WIDTH_def)
  qed
  have ident: "0 < c \<and> c < CANVAS_WIDTH
      \<longrightarrow> torusWrap c = c \<and> torusWrap (torusWrap c) = torusWrap c"
    by (auto simp add: torusWrap_def CANVAS_WIDTH_def)
  have points: "torusWrap 0 = CANVAS_WIDTH \<and> torusWrap CANVAS_WIDTH = 0
      \<and> torusWrap (2 * CANVAS_WIDTH) = CANVAS_WIDTH \<and> torusWrap (- CANVAS_WIDTH) = 0"
    by (simp add: torusWrap_def CANVAS_WIDTH_def)
  from closed half_open ident points show ?thesis by blast
qed

theorem torusWrap_range_witness:
  "(- CANVAS_WIDTH \<le> - 10 \<and> (- 10::rat) < 2 * CANVAS_WIDTH \<and> (- 10::rat) \<le> - (1 / 2 ^ 43))
   \<and> torusWrap (- 10) = 590
   \<and> 0 \<le> torusWrap (- 10) \<and> torusWrap (- 10) < CANVAS_WIDTH
   \<and> ((0::rat) < 100 \<and> 100 < CANVAS_WIDTH)
   \<and> torusWrap 100 = 100 \<and> torusWrap (torusWrap 100) = torusWrap 100"
proof -
  have h1: "- CANVAS_WIDTH \<le> - 10 \<and> (- 10::rat) < 2 * CANVAS_WIDTH
      \<and> (- 10::rat) \<le> - (1 / 2 ^ 43)"
    by (simp add: CANVAS_WIDTH_def)
  have h2: "(0::rat) < 100 \<and> 100 < CANVAS_WIDTH"
    by (simp add: CANVAS_WIDTH_def)
  have v: "torusWrap (- 10) = 590"
    by (simp add: torusWrap_def CANVAS_WIDTH_def)
  from torusWrap_range [of "- 10"] h1
  have r1: "0 \<le> torusWrap (- 10) \<and> torusWrap (- 10) < CANVAS_WIDTH" by blast
  from torusWrap_range [of 100] h2
  have r2: "torusWrap 100 = 100 \<and> torusWrap (torusWrap 100) = torusWrap 100" by blast
  from h1 h2 v r1 r2 show ?thesis by blast
qed

subsection \<open>Goal zones and level completion\<close>

text \<open>
  C6 (as stated): in the collision resolution in which the player overlaps a goal zone,
  the zone's identifier is recorded, the count is raised by one, 100 is added to the
  goal score, and the zone is shifted off the field in that same transition. With the
  player walked into the leftmost goal zone from the initial state, the overlap is
  found and the goal zones come out of the resolution (and of the tick) where they
  were.
\<close>

theorem goal_not_shifted_counterexample:
  "0 < length (collidedEnd (run initialState to_goal0))
   \<and> destinations (handleCollisions (run initialState to_goal0))
       = destinations (run initialState to_goal0)
   \<and> map y (destinations (reduceState 0 (run initialState to_goal0) (Tick 1)))
       = [2, 2, 2, 2, 2]"
  by code_simp

text \<open>
  C6 (amended): in the collision resolution in which the player overlaps a goal zone,
  the identifier of the first overlapped zone is recorded in \<open>reachDestID\<close>,
  \<open>reachDestCount\<close> is raised by one and \<open>destScore\<close> by 100. The resolution shifts (by
  100 upwards, off the field) the goal zones whose identifier is the \<open>reachDestID\<close> of
  the state it was given; the zone reached now is therefore shifted by the next tick.
\<close>

theorem goal_bookkeeping:
  assumes "0 < length (collidedEnd s)"
  shows "reachDestID (handleCollisions s) = ident (hd (collidedEnd s))
   \<and> reachDestCount (handleCollisions s) = reachDestCount s + 1
   \<and> destScore (handleCollisions s) = destScore s + 100
   \<and> destinations (handleCollisions s)
     = map (\<lambda>b. if ident b = reachDestID s then b\<lparr> y := y b - 100 \<rparr> else b)
         (destinations s)
   \<and> destinations (reduceState rnd (handleCollisions s) (Tick el))
     = map (\<lambda>b. if ident b = ident (hd (collidedEnd s)) then b\<lparr> y := y b - 100 \<rparr> else b)
         (destinations (handleCollisions s))"
  using assms
  by (simp add: handleCollisions_reachDestID handleCollisions_reachDestCount
      handleCollisions_destScore handleCollisions_destinations tick_destinations)

theorem goal_bookkeeping_witness:
  "0 < length (collidedEnd (run initialState to_goal0))
   \<and> reachDestID (handleCollisions (run initialState to_goal0)) = ''end0''
   \<and> reachDestCount (handleCollisions (run initialState to_goal0)) = 1
   \<and> destScore (handleCollisions (run initialState to_goal0)) = 100
   \<and> map y (destinations (handleCollisions (run initialState to_goal0)))
     = [2, 2, 2, 2, 2]
   \<and> map y (destinations
        (reduceState 0 (handleCollisions (run initialState to_goal0)) (Tick 2)))
     = [- 98, 2, 2, 2, 2]"
proof -
  have h: "0 < length (collidedEnd (run initialState to_goal0))"
    by code_simp
  have pre: "ident (hd (collidedEnd (run initialState to_goal0))) = ''end0''
      \<and> reachDestCount (run initialState to_goal0) = 0
      \<and> destScore (run initialState to_goal0) = 0
      \<and> map y (map (\<lambda>b. if ident b = reachDestID (run initialState to_goal0)
                         then b\<lparr> y := y b - 100 \<rparr> else b)
                 (destinations (run initialState to_goal0))) = [2, 2, 2, 2, 2]"
    by code_simp
  have post: "map y (map (\<lambda>b. if ident b = ''end0'' then b\<lparr> y := y b - 100 \<rparr> else b)
                 (destinations (handleCollisions (run initialState to_goal0))))
              = [- 98, 2, 2, 2, 2]"
    by code_simp
  from goal_bookkeeping [OF h, of 0 2] h pre post show ?thesis
    by simp
qed

lemma outcome_five_goals:
  "outcome (run initialState five_goals)
   = (5, False, False, 3, 1, 500, 1 / 2, [- 98, - 98, - 98, - 98, 2])"
  by code_simp

lemma outcome_five_goals_tick:
  "outcome (reduceState 0 (run initialState five_goals) (Tick 6))
   = (5, True, False, 3, 1, 500, 1 / 2, [- 98, - 98, - 98, - 98, - 98])"
  by code_simp

lemma outcome_last_life_goals:
  "outcome (run initialState last_life_goals)
   = (5, True, True, 0, 1, 500, 1 / 2, [- 98, - 98, - 98, - 98, - 98])"
  by code_simp

text \<open>
  C7 (as stated): reaching all five goal zones sets \<open>levelPassed\<close>, and the regenerator
  applied to the resulting state yields the next level with scores and lives kept.
  In the state that results from reaching the fifth goal zone \<open>levelPassed\<close> is still
  false and the regenerator returns that state as it is. And when the fifth goal zone
  is reached on the last life, the tick that sets \<open>levelPassed\<close> sets \<open>gameOver\<close> too,
  and the regenerator returns level 1 with scores 0 and three lives.
\<close>

theorem level_completion_counterexample:
  "reachDestCount (run initialState five_goals) = int DESTINATION_COUNT
   \<and> \<not> levelPassed (run initialState five_goals)
   \<and> newGameState (run initialState five_goals) = run initialState five_goals
   \<and> reachDestCount (run initialState last_life_goals) = int DESTINATION_COUNT
   \<and> levelPassed (run initialState last_life_goals)
   \<and> level (run initialState last_life_goals) = 1
   \<and> level (newGameState (run initialState last_life_goals)) = 1
   \<and> destScore (run initialState last_life_goals) = 500
   \<and> destScore (newGameState (run initialState last_life_goals)) = 0
   \<and> livesCount (run initialState last_life_goals) = 0
   \<and> livesCount (newGameState (run initialState last_life_goals)) = 3"
proof -
  from outcome_five_goals
  have five: "reachDestCount (run initialState five_goals) = 5
      \<and> \<not> levelPassed (run initialState five_goals)
      \<and> \<not> gameOver (run initialState five_goals)"
    by (simp add: outcome_def)
  then have same: "newGameState (run initialState five_goals) = run initialState five_goals"
    by (simp add: newGameState_def)
  from outcome_last_life_goals
  have last: "reachDestCount (run initialState last_life_goals) = 5
      \<and> levelPassed (run initialState last_life_goals)
      \<and> gameOver (run initialState last_life_goals)
      \<and> livesCount (run initialState last_life_goals) = 0
      \<and> level (run initialState last_life_goals) = 1
      \<and> destScore (run initialState last_life_goals) = 500"
    by (simp add: outcome_def)
  then have reset: "level (newGameState (run initialState last_life_goals)) = 1
      \<and> destScore (newGameState (run initialState last_life_goals)) = 0
      \<and> livesCount (newGameState (run initialState last_life_goals)) = 3"
    by (simp add: newGameState_def)
  from five same last reset show ?thesis
    by (simp add: DESTINATION_COUNT_def)
qed

text \<open>
  C7 (amended): a tick sets \<open>levelPassed\<close> exactly when it finds \<open>reachDestCount\<close> at
  five, which with each goal zone reached once is the tick after the one that reaches
  the fifth. If the game is not over at that tick (\<open>livesCount\<close> is not 0 before it),
  the regenerator applied to the resulting state yields the level raised by 1,
  \<open>reachDestCount\<close> 0, the four scores, the high score and the lives unchanged, and,
  for a multiplier between 0 and 100, a multiplier within \<open>10\<^sup>-\<^sup>9\<close> of the previous one
  plus 0.1. The multiplier is stated with a tolerance and on a range because the model
  adds exactly \<open>1/10\<close> where the source adds the double 0.1 and rounds the sum; on that
  range the two differ by less than \<open>10\<^sup>-\<^sup>1\<^sup>3\<close>.
\<close>

theorem level_completion:
  "levelPassed (reduceState rnd s (Tick el)) = (reachDestCount s = int DESTINATION_COUNT)
   \<and> (reachDestCount s = int DESTINATION_COUNT \<and> livesCount s \<noteq> 0
        \<and> s' = reduceState rnd s (Tick el)
      \<longrightarrow> levelPassed s' \<and> \<not> gameOver s'
        \<and> level (newGameState s') = level s' + 1
        \<and> reachDestCount (newGameState s') = 0
        \<and> destScore (newGameState s') = destScore s'
        \<and> fliesScore (newGameState s') = fliesScore s'
        \<and> moveScore (newGameState s') = moveScore s'
        \<and> totalScore (newGameState s') = totalScore s'
        \<and> highScore (newGameState s') = highScore s'
        \<and> livesCount (newGameState s') = livesCount s'
        \<and> (0 \<le> levelMultiplier s' \<and> levelMultiplier s' \<le> 100
            \<longrightarrow> \<bar>levelMultiplier (newGameState s') - (levelMultiplier s' + 1 / 10)\<bar>
                \<le> 1 / 10 ^ 9))"
proof -
  have flag: "levelPassed (reduceState rnd s (Tick el))
      = (reachDestCount s = int DESTINATION_COUNT)"
    by (simp add: tick_levelPassed)
  have regen: "reachDestCount s = int DESTINATION_COUNT \<and> livesCount s \<noteq> 0
        \<and> s' = reduceState rnd s (Tick el)
      \<longrightarrow> levelPassed s' \<and> \<not> gameOver s'
        \<and> level (newGameState s') = level s' + 1
        \<and> reachDestCount (newGameState s') = 0
        \<and> destScore (newGameState s') = destScore s'
        \<and> fliesScore (newGameState s') = fliesScore s'
        \<and> moveScore (newGameState s') = moveScore s'
        \<and> totalScore (newGameState s') = totalScore s'
        \<and> highScore (newGameState s') = highScore s'
        \<and> livesCount (newGameState s') = livesCount s'
        \<and> (0 \<le> levelMultiplier s' \<and> levelMultiplier s' \<le> 100
            \<longrightarrow> \<bar>levelMultiplier (newGameState s') - (levelMultiplier s' + 1 / 10)\<bar>
                \<le> 1 / 10 ^ 9)"
  proof (intro impI)
    assume hyp: "reachDestCount s = int DESTINATION_COUNT \<and> livesCount s \<noteq> 0
        \<and> s' = reduceState rnd s (Tick el)"
    then have passed: "levelPassed s'"
      by (simp add: tick_levelPassed)
    from hyp have alive: "\<not> gameOver s'"
      by (simp add: tick_gameOver)
    from passed alive
    show "levelPassed s' \<and> \<not> gameOver s'
        \<and> level (newGameState s') = level s' + 1
        \<and> reachDestCount (newGameState s') = 0
        \<and> destScore (newGameState s') = destScore s'
        \<and> fliesScore (newGameState s') = fliesScore s'
        \<and> moveScore (newGameState s') = moveScore s'
        \<and> totalScore (newGameState s') = totalScore s'
        \<and> highScore (newGameState s') = highScore s'
        \<and> livesCount (newGameState s') = livesCount s'
        \<and> (0 \<le> levelMultiplier s' \<and> levelMultiplier s' \<le> 100
            \<longrightarrow> \<bar>levelMultiplier (newGameState s') - (levelMultiplier s' + 1 / 10)\<bar>
                \<le> 1 / 10 ^ 9)"
      by (simp add: newGameState_def)
  qed
  from flag regen show ?thesis by blast
qed

text \<open>The five goal zones reached one after the other from the initial state, then
  one more tick and the regenerator.\<close>

theorem level_completion_witness:
  "reachDestCount (run initialState five_goals) = int DESTINATION_COUNT
   \<and> livesCount (run initialState five_goals) \<noteq> 0
   \<and> \<not> levelPassed (run initialState five_goals)
   \<and> map y (destinations (reduceState 0 (run initialState five_goals) (Tick 6)))
     = [- 98, - 98, - 98, - 98, - 98]
   \<and> levelPassed (reduceState 0 (run initialState five_goals) (Tick 6))
   \<and> level (newGameState (reduceState 0 (run initialState five_goals) (Tick 6))) = 2
   \<and> reachDestCount (newGameState (reduceState 0 (run initialState five_goals) (Tick 6)))
     = 0
   \<and> destScore (newGameState (reduceState 0 (run initialState five_goals) (Tick 6)))
     = 500
   \<and> livesCount (newGameState (reduceState 0 (run initialState five_goals) (Tick 6)))
     = 3
   \<and> levelMultiplier (reduceState 0 (run initialState five_goals) (Tick 6)) = 1 / 2
   \<and> \<bar>levelMultiplier (newGameState (reduceState 0 (run initialState five_goals) (Tick 6)))
        - 3 / 5\<bar> \<le> 1 / 10 ^ 9"
proof -
  from outcome_five_goals
  have start: "reachDestCount (run initialState five_goals) = 5
      \<and> livesCount (run initialState five_goals) = 3
      \<and> \<not> levelPassed (run initialState five_goals)"
    by (simp add: outcome_def)
  then have h1: "reachDestCount (run initialState five_goals) = int DESTINATION_COUNT"
    and h2: "livesCount (run initialState five_goals) \<noteq> 0"
    and not_yet: "\<not> levelPassed (run initialState five_goals)"
    by (simp_all add: DESTINATION_COUNT_def)
  from outcome_five_goals_tick
  have before: "level (reduceState 0 (run initialState five_goals) (Tick 6)) = 1
      \<and> destScore (reduceState 0 (run initialState five_goals) (Tick 6)) = 500
      \<and> livesCount (reduceState 0 (run initialState five_goals) (Tick 6)) = 3
      \<and> map y (destinations (reduceState 0 (run initialState five_goals) (Tick 6)))
        = [- 98, - 98, - 98, - 98, - 98]"
    and mult: "levelMultiplier (reduceState 0 (run initialState five_goals) (Tick 6)) = 1 / 2"
    by (simp_all add: outcome_def)
  from mult
  have range: "0 \<le> levelMultiplier (reduceState 0 (run initialState five_goals) (Tick 6))
      \<and> levelMultiplier (reduceState 0 (run initialState five_goals) (Tick 6)) \<le> 100"
    by simp
  from level_completion
    [of 0 "run initialState five_goals" 6
        "reduceState 0 (run initialState five_goals) (Tick 6)"] h1 h2 range
  have after: "levelPassed (reduceState 0 (run initialState five_goals) (Tick 6))
      \<and> level (newGameState (reduceState 0 (run initialState five_goals) (Tick 6)))
        = level (reduceState 0 (run initialState five_goals) (Tick 6)) + 1
      \<and> reachDestCount (newGameState (reduceState 0 (run initialState five_goals) (Tick 6)))
        = 0
      \<and> destScore (newGameState (reduceState 0 (run initialState five_goals) (Tick 6)))
        = destScore (reduceState 0 (run initialState five_goals) (Tick 6))
      \<and> livesCount (newGameState (reduceState 0 (run initialState five_goals) (Tick 6)))
        = livesCount (reduceState 0 (run initialState five_goals) (Tick 6))"
    and near: "\<bar>levelMultiplier
           (newGameState (reduceState 0 (run initialState five_goals) (Tick 6)))
         - (levelMultiplier (reduceState 0 (run initialState five_goals) (Tick 6)) + 1 / 10)\<bar>
        \<le> 1 / 10 ^ 9"
    by blast+
  have sum: "(1 / 2 + 1 / 10 :: rat) = 3 / 5"
    by simp
  from near
  have near': "\<bar>levelMultiplier
           (newGameState (reduceState 0 (run initialState five_goals) (Tick 6)))
         - 3 / 5\<bar> \<le> 1 / 10 ^ 9"
    by (simp only: mult sum)
  from h1 h2 not_yet before after mult near' show ?thesis
    by simp
qed

text \<open>
  C8 (as stated): for every state with \<open>livesCount = 0\<close> the regenerator returns level
  1, multiplier 0.5, three lives and zero scores. The regenerator tests \<open>gameOver\<close>, not
  the lives: after three deaths from the initial state the lives are 0, the flag is
  not yet set, and the regenerator returns the state as it is.
\<close>

theorem regenerate_zero_lives_counterexample:
  "livesCount (run initialState three_deaths) = 0
   \<and> newGameState (run initialState three_deaths) = run initialState three_deaths
   \<and> livesCount (newGameState (run initialState three_deaths)) \<noteq> 3"
  by code_simp

text \<open>
  C8 (amended): for every state with \<open>gameOver\<close> set the regenerator returns a state
  with level 1, multiplier 0.5, three lives, the four scores at 0 and the high score of
  the state it was given.
\<close>

theorem game_over_reset:
  assumes "gameOver s"
  shows "level (newGameState s) = 1
   \<and> levelMultiplier (newGameState s) = 1 / 2
   \<and> livesCount (newGameState s) = 3
   \<and> destScore (newGameState s) = 0
   \<and> fliesScore (newGameState s) = 0
   \<and> moveScore (newGameState s) = 0
   \<and> totalScore (newGameState s) = 0
   \<and> highScore (newGameState s) = highScore s"
  using assms by (simp add: newGameState_def)

theorem game_over_reset_witness:
  "gameOver (run initialState game_over_run)
   \<and> highScore (run initialState game_over_run) = 10
   \<and> level (newGameState (run initialState game_over_run)) = 1
   \<and> levelMultiplier (newGameState (run initialState game_over_run)) = 1 / 2
   \<and> livesCount (newGameState (run initialState game_over_run)) = 3
   \<and> destScore (newGameState (run initialState game_over_run)) = 0
   \<and> fliesScore (newGameState (run initialState game_over_run)) = 0
   \<and> moveScore (newGameState (run initialState game_over_run)) = 0
   \<and> totalScore (newGameState (run initialState game_over_run)) = 0
   \<and> highScore (newGameState (run initialState game_over_run)) = 10"
proof -
  have h: "gameOver (run initialState game_over_run)"
    by code_simp
  have high: "highScore (run initialState game_over_run) = 10"
    by code_simp
  from game_over_reset [OF h] h high show ?thesis
    by simp
qed

end
